theory Spec2Isabelle
  imports Main "HOL-Library.Sublist"
begin

section \<open>The Conan recipe of fossil-io (conanfile.py)\<close>

text \<open>
  The recipe is a Python class \<open>FossilIoConan\<close> with a handful of class attributes and
  seven \<open>def\<close> statements for six method names (\<open>source\<close> is defined twice), all
  straight-line. Each method either assigns attributes of \<open>self\<close> or calls
  into Conan, Meson or git. Those callees are not part of the recipe: their outcome is a
  parameter of the model (\<open>tools\<close>), and every call the recipe makes is written to a log
  together with its exit status.
\<close>

subsection \<open>Python helpers used by the recipe\<close>

text \<open>
  \<open>os.path.join(a, *p)\<close> of posixpath: a component that starts with a slash replaces
  what came before, otherwise it is appended, with a slash unless the path so far is
  empty or already ends with one.
\<close>

definition join_step :: "string \<Rightarrow> string \<Rightarrow> string" where
  "join_step path b =
     (if b \<noteq> [] \<and> hd b = CHR ''/'' then b
      else if path = [] \<or> last path = CHR ''/'' then path @ b
      else path @ ''/'' @ b)"

definition os_path_join :: "string \<Rightarrow> string list \<Rightarrow> string" where
  "os_path_join a p = foldl join_step a p"

text \<open>
  The words a shell sees in a command line without quoting: maximal runs of characters
  other than the space. \<open>cur\<close> is the word read so far.
\<close>

fun split_words :: "string \<Rightarrow> string \<Rightarrow> string list" where
  "split_words cur [] = (if cur = [] then [] else [cur])"
| "split_words cur (c # cs) =
     (if c = CHR '' '' then (if cur = [] then split_words [] cs else cur # split_words [] cs)
      else split_words (cur @ [c]) cs)"

definition shell_words :: "string \<Rightarrow> string list" where
  "shell_words cmd = split_words [] cmd"

subsection \<open>Class attributes\<close>

text \<open>
  No method assigns any of them, so \<open>self.version\<close> and \<open>self.url\<close> in a method
  body read these values.
\<close>

definition name :: string where
  "name = ''fossil_io''"

definition version :: string where
  "version = ''0.2.4''"

definition license :: string where
  "license = ''MPL-2.0''"

definition author :: string where
  "author = ''Fossil Logic <michaelbrockus@gmail.com>''"

definition url :: string where
  "url = ''https://github.com/fossillogic/fossil-io''"

definition description :: string where
  "description =
     ''Fossil Io is a lightweight, portable input output stream library '' @
     ''written in pure C with zero external dependencies.''"

definition topics :: "string list" where
  "topics = [''c'', ''stream'', ''io'', ''cpp'', ''meson'', ''conan-recipe'', ''mesonbuild'',
             ''ninja-build'']"

definition settings :: "string list" where
  "settings = [''os'', ''compiler'', ''build_type'', ''arch'']"

text \<open>The two dict literals, as association lists in the order of the literal.\<close>

definition options :: "(string \<times> bool list) list" where
  "options = [(''shared'', [True, False])]"

definition default_options :: "(string \<times> bool) list" where
  "default_options = [(''shared'', False)]"

definition exports_sources :: "string list" where
  "exports_sources = [''code/**'', ''meson.build'', ''meson.options'']"

definition generators :: string where
  "generators = ''PkgConfigDeps''"

subsection \<open>The recipe object\<close>

text \<open>
  The attributes of \<open>self\<close> that the methods read or assign: \<open>self.folders.source\<close>,
  \<open>self.folders.build\<close>, \<open>self.package_folder\<close>, \<open>self.options.shared\<close>,
  \<open>self.cpp_info.libs\<close> and \<open>self.cpp_info.includedirs\<close>.
\<close>

record conanfile =
  folders_source :: string
  folders_build :: string
  package_folder :: string
  options_shared :: bool
  cpp_info_libs :: "string list"
  cpp_info_includedirs :: "string list"

subsection \<open>Calls that leave the recipe\<close>

text \<open>
  One constructor per callee of the recipe, with the arguments the recipe passes
  (\<open>self\<close> apart, which every callee receives): \<open>MesonToolchain(self)\<close> and
  \<open>tc.generate()\<close>; \<open>Meson(self)\<close>, \<open>meson.configure()\<close>, \<open>meson.build()\<close> and
  \<open>meson.install()\<close>; \<open>self.run(cmd)\<close>; \<open>copy(self, pattern, src=..., dst=...)\<close>.
\<close>

datatype effect =
    MesonToolchain_new
  | MesonToolchain_generate
  | Meson_new
  | Meson_configure
  | Meson_build
  | Meson_install
  | Run string
  | Copy string string string

datatype exn = ConanException string | AttributeError string

type_synonym fs = "(string \<times> string) list"

text \<open>
  What a callee does is not decided by the recipe: given \<open>self\<close>, the call and the
  files on disk, it raises or leaves a new file system.
\<close>

type_synonym tools = "conanfile \<Rightarrow> effect \<Rightarrow> fs \<Rightarrow> exn + fs"

text \<open>
  The world outside the recipe object: the log of calls made so far, each with the
  exception it raised (\<open>None\<close> when it returned), and the files on disk.
\<close>

record world =
  trace :: "(effect \<times> exn option) list"
  files :: fs

type_synonym 'a action = "world \<Rightarrow> (exn + 'a) \<times> world"

definition call :: "tools \<Rightarrow> conanfile \<Rightarrow> effect \<Rightarrow> unit action" where
  "call ext self e w =
     (case ext self e (files w) of
        Inl x \<Rightarrow> (Inl x, w\<lparr>trace := trace w @ [(e, Some x)]\<rparr>)
      | Inr fs' \<Rightarrow> (Inr (), \<lparr>trace = trace w @ [(e, None)], files = fs'\<rparr>))"

text \<open>Statement sequencing: an exception of the first statement skips the rest.\<close>

definition seq :: "'a action \<Rightarrow> ('a \<Rightarrow> 'b action) \<Rightarrow> 'b action" where
  "seq m k w = (case m w of (Inl x, w') \<Rightarrow> (Inl x, w') | (Inr a, w') \<Rightarrow> k a w')"

definition ret :: "'a \<Rightarrow> 'a action" where
  "ret a w = (Inr a, w)"

subsection \<open>The methods\<close>

text \<open>
  A method receives \<open>self\<close> and returns it with the attributes it assigned. The
  definitions follow the class body: \<open>layout\<close> (line 22), \<open>generate\<close> (line 27),
  \<open>build\<close> (line 32), \<open>source\<close> (line 38), \<open>package\<close> (line 41), \<open>package_info\<close>
  (line 51) and \<open>source\<close> again (line 56).
\<close>

type_synonym recipe_method = "tools \<Rightarrow> conanfile \<Rightarrow> conanfile action"

definition layout :: recipe_method where
  "layout ext self =
     ret (self\<lparr>folders_source := ''.'', folders_build := ''builddir''\<rparr>)"

definition generate :: recipe_method where
  "generate ext self =
     seq (call ext self MesonToolchain_new) (\<lambda>_.
     seq (call ext self MesonToolchain_generate) (\<lambda>_.
     ret self))"

definition build :: recipe_method where
  "build ext self =
     seq (call ext self Meson_new) (\<lambda>_.
     seq (call ext self Meson_configure) (\<lambda>_.
     seq (call ext self Meson_build) (\<lambda>_.
     ret self)))"

text \<open>The definition of \<open>source\<close> at line 38, with \<open>--depth 1\<close>.\<close>

definition source_first :: recipe_method where
  "source_first ext self =
     seq (call ext self (Run (''git clone --branch v'' @ version @ '' --depth 1 '' @ url))) (\<lambda>_.
     ret self)"

definition package :: recipe_method where
  "package ext self =
     seq (call ext self Meson_new) (\<lambda>_.
     seq (call ext self Meson_install) (\<lambda>_.
     seq (call ext self (Copy ''*.h'' ''code/logic/fossil/io''
            (os_path_join (package_folder self) [''include'', ''fossil'', ''io'']))) (\<lambda>_.
     ret self)))"

definition package_info :: recipe_method where
  "package_info ext self =
     ret (self\<lparr>cpp_info_libs := [''fossil_io''], cpp_info_includedirs := [''include'']\<rparr>)"

text \<open>The definition of \<open>source\<close> at line 56, without it.\<close>

definition source_second :: recipe_method where
  "source_second ext self =
     seq (call ext self (Run (''git clone --branch v'' @ version @ '' '' @ url))) (\<lambda>_.
     ret self)"

subsection \<open>The class namespace\<close>

text \<open>
  The \<open>def\<close> statements of the class body in source order. Executing the body binds
  each name in turn, so a later binding of a name replaces an earlier one.
\<close>

definition class_body :: "(string \<times> recipe_method) list" where
  "class_body =
     [(''layout'', layout), (''generate'', generate), (''build'', build),
      (''source'', source_first), (''package'', package),
      (''package_info'', package_info), (''source'', source_second)]"

definition class_namespace :: "string \<Rightarrow> recipe_method option" where
  "class_namespace = foldl (\<lambda>ns (k, m). ns(k \<mapsto> m)) Map.empty class_body"

text \<open>Calling a method of the recipe by name.\<close>

definition invoke :: "string \<Rightarrow> recipe_method" where
  "invoke attr ext self w =
     (case class_namespace attr of
        None \<Rightarrow> (Inl (AttributeError attr), w)
      | Some m \<Rightarrow> m ext self w)"

text \<open>The calls a method made: what it appended to the log.\<close>

definition invoked ::
  "recipe_method \<Rightarrow> tools \<Rightarrow> conanfile \<Rightarrow> world \<Rightarrow> (effect \<times> exn option) list" where
  "invoked m ext self w = drop (length (trace w)) (trace (snd (m ext self w)))"

text \<open>
  The calls among them that hand work to a tool; constructing a helper object
  (\<open>Meson(self)\<close>, \<open>MesonToolchain(self)\<close>) is not one.
\<close>

fun is_constructor :: "effect \<Rightarrow> bool" where
  "is_constructor MesonToolchain_new = True"
| "is_constructor Meson_new = True"
| "is_constructor _ = False"

definition delegations :: "(effect \<times> exn option) list \<Rightarrow> effect list" where
  "delegations tr = filter (\<lambda>e. \<not> is_constructor e) (map fst tr)"

subsection \<open>The file copy\<close>

text \<open>
  Modelled from the spec: \<open>conan.tools.files.copy\<close> is imported by the recipe and its code
  is not part of the source. The spec says that it "copies header files matching a glob
  pattern into the package's include tree" and that afterwards "the include directory
  contains all header files matching \<open>*.h\<close> from the declared source path". The model:
  the disk is an association list from path to content (the first entry of a path is the
  file); a file lies under \<open>src\<close> when its path is \<open>src\<close>, a slash and a relative
  path; the pattern is matched against the relative path, \<open>*\<close> standing for any run
  of characters and \<open>?\<close> for any one; a matching file is written to \<open>dst\<close> at the same
  relative path.
\<close>

fun fnmatch :: "string \<Rightarrow> string \<Rightarrow> bool" where
  "fnmatch [] [] = True"
| "fnmatch (c # cs) [] = False"
| "fnmatch [] (p # ps) = (p = CHR ''*'' \<and> fnmatch [] ps)"
| "fnmatch (c # cs) (p # ps) =
     (if p = CHR ''*'' then fnmatch (c # cs) ps \<or> fnmatch cs (p # ps)
      else (p = CHR ''?'' \<or> p = c) \<and> fnmatch cs ps)"

text \<open>
  Modelled from the spec: part of the absent \<open>copy\<close>; what is left of a path after a
  given beginning, if it begins so.
\<close>

fun strip_prefix :: "string \<Rightarrow> string \<Rightarrow> string option" where
  "strip_prefix [] s = Some s"
| "strip_prefix (a # as) [] = None"
| "strip_prefix (a # as) (b # bs) = (if a = b then strip_prefix as bs else None)"

text \<open>
  Modelled from the spec: part of the absent \<open>copy\<close>; the path of a file relative to
  the directory \<open>src\<close> ("from the declared source path"), for a file below it.
\<close>

definition relative_to :: "string \<Rightarrow> string \<Rightarrow> string option" where
  "relative_to src p =
     (case strip_prefix (os_path_join src ['''']) p of
        None \<Rightarrow> None
      | Some rel \<Rightarrow> if rel = [] \<or> hd rel = CHR ''/'' then None else Some rel)"

text \<open>
  Modelled from the spec: part of the absent \<open>copy\<close>; the copy made of one file, if it
  lies under \<open>src\<close> and matches.
\<close>

definition copy_entry :: "string \<Rightarrow> string \<Rightarrow> string \<Rightarrow> string \<times> string \<Rightarrow> fs" where
  "copy_entry pattern src dst entry =
     (case relative_to src (fst entry) of
        None \<Rightarrow> []
      | Some rel \<Rightarrow>
          if fnmatch rel pattern then [(os_path_join dst [rel], snd entry)] else [])"

text \<open>
  Modelled from the spec: the disk after the absent \<open>copy\<close> returned; the copies come
  first, so they replace what was at their paths, and every file is read from the disk
  as it was before.
\<close>

definition copy_files :: "string \<Rightarrow> string \<Rightarrow> string \<Rightarrow> fs \<Rightarrow> fs" where
  "copy_files pattern src dst fs = concat (map (copy_entry pattern src dst) fs) @ fs"

text \<open>
  Modelled from the spec: tools whose file copy (the absent \<open>copy\<close>), when it returns,
  has done what \<open>copy_files\<close> says; whether it raises, and everything about the other
  callees, is left to \<open>ext\<close>.
\<close>

definition with_copy :: "tools \<Rightarrow> tools" where
  "with_copy ext self e fs =
     (case e of
        Copy pattern src dst \<Rightarrow>
          (case ext self e fs of
             Inl x \<Rightarrow> Inl x
           | Inr _ \<Rightarrow> Inr (copy_files pattern src dst fs))
      | _ \<Rightarrow> ext self e fs)"

subsection \<open>Reading the log\<close>

text \<open>
  A log replays against the tools from a given disk when each entry carries the status
  the tool really gave at that point, and the log stops at the first call that raised.
\<close>

fun replays :: "tools \<Rightarrow> conanfile \<Rightarrow> fs \<Rightarrow> (effect \<times> exn option) list \<Rightarrow> bool" where
  "replays ext self fs [] = True"
| "replays ext self fs (en # tr) =
     (case ext self (fst en) fs of
        Inl x \<Rightarrow> snd en = Some x \<and> tr = []
      | Inr fs' \<Rightarrow> snd en = None \<and> replays ext self fs' tr)"

text \<open>
  A run of a method follows a script, a fixed list of calls, when the calls logged are
  an initial segment of the script, the log replays, and the result fits the log: the
  method returned only after the whole script ran with every call returning, and it
  raised only the exception that its last call raised.
\<close>

definition straight_line ::
  "effect list \<Rightarrow> tools \<Rightarrow> conanfile \<Rightarrow> fs \<Rightarrow> exn + conanfile \<Rightarrow>
   (effect \<times> exn option) list \<Rightarrow> bool" where
  "straight_line script ext self fs r tr =
     (prefix (map fst tr) script \<and> replays ext self fs tr \<and>
      (case r of
         Inr self' \<Rightarrow> map fst tr = script \<and> list_all (\<lambda>en. snd en = None) tr
       | Inl x \<Rightarrow> tr \<noteq> [] \<and> snd (last tr) = Some x))"

subsection \<open>Sample runs\<close>

text \<open>Concrete inputs on which the theorems below are exercised.\<close>

definition all_succeed :: tools where
  "all_succeed self e fs = Inr fs"

definition configure_fails :: tools where
  "configure_fails self e fs =
     (if e = Meson_configure then Inl (ConanException ''meson setup: exit status 1'')
      else Inr fs)"

definition install_fails :: tools where
  "install_fails self e fs =
     (if e = Meson_install then Inl (ConanException ''meson install: exit status 1'')
      else Inr fs)"

definition recipe0 :: conanfile where
  "recipe0 = \<lparr>folders_source = [], folders_build = [], package_folder = ''/pkg'',
               options_shared = False, cpp_info_libs = [], cpp_info_includedirs = []\<rparr>"

definition world0 :: world where
  "world0 = \<lparr>trace = [],
              files = [(''code/logic/fossil/io/stream.h'', ''#pragma once''),
                       (''code/logic/fossil/io/stream.c'', ''int x;'')]\<rparr>"

section \<open>Properties\<close>

subsection \<open>Auxiliary facts\<close>

lemmas method_defs = layout_def generate_def build_def source_first_def source_second_def
  package_def package_info_def

lemmas action_defs = seq_def call_def ret_def

lemma class_body_cases:
  assumes "(n, m) \<in> set class_body"
  obtains "m = layout" | "m = generate" | "m = build" | "m = source_first" | "m = package"
    | "m = package_info" | "m = source_second"
  using assms by (auto simp: class_body_def)

lemma source_binding: "class_namespace ''source'' = Some source_second"
  by (simp add: class_namespace_def class_body_def)

lemma invoke_source: "invoke ''source'' = source_second"
  by (rule ext)+ (simp add: invoke_def source_binding)

lemma strip_prefix_Some: "strip_prefix d p = Some r \<longleftrightarrow> p = d @ r"
  by (induction d p rule: strip_prefix.induct) auto

lemma strip_prefix_append: "strip_prefix d (d @ r) = Some r"
  by (simp add: strip_prefix_Some)

lemma relative_to_Some:
  "relative_to src p = Some rel \<longleftrightarrow>
     p = os_path_join src [''''] @ rel \<and> rel \<noteq> [] \<and> hd rel \<noteq> CHR ''/''"
  by (auto simp: relative_to_def strip_prefix_Some strip_prefix_append split: option.splits)

lemma join_relative:
  "rel \<noteq> [] \<Longrightarrow> hd rel \<noteq> CHR ''/'' \<Longrightarrow> os_path_join dst [rel] = os_path_join dst [''''] @ rel"
  by (simp add: os_path_join_def join_step_def)

lemma join_snoc: "os_path_join a (p @ [b]) = os_path_join (os_path_join a p) [b]"
  by (simp add: os_path_join_def)

text \<open>The pattern of the recipe selects the names that end in \<open>.h\<close>, at any depth.\<close>

lemma fnmatch_star_h: "fnmatch s ''*.h'' \<longleftrightarrow> (\<exists>pre. s = pre @ ''.h'')"
proof (induction s)
  case Nil
  show ?case by simp
next
  case (Cons c s)
  have "fnmatch (c # s) ''.h'' \<longleftrightarrow> c # s = ''.h''"
    by (cases s; cases "tl s"; cases "tl (tl s)") auto
  then show ?case using Cons
    by (auto simp: Cons_eq_append_conv)
qed

text \<open>
  A file under \<open>src\<close> that matches is found at its place under \<open>dst\<close> among the copies:
  two files under \<open>src\<close> never share a destination.
\<close>

lemma copied_lookup:
  assumes "map_of fs p = Some d" and "relative_to src p = Some rel" and "fnmatch rel pattern"
  shows "map_of (concat (map (copy_entry pattern src dst) fs)) (os_path_join dst [rel]) = Some d"
  using assms(1)
proof (induction fs)
  case Nil
  then show ?case by simp
next
  case (Cons entry fs)
  show ?case
  proof (cases "fst entry = p")
    case True
    with Cons.prems have "snd entry = d" by (cases entry) simp
    with True assms(2,3) show ?thesis by (simp add: copy_entry_def)
  next
    case False
    with Cons.prems have rest: "map_of fs p = Some d"
      by (cases entry) (simp split: if_splits)
    have "map_of (copy_entry pattern src dst entry) (os_path_join dst [rel]) = None"
    proof (cases "relative_to src (fst entry)")
      case None
      then show ?thesis by (simp add: copy_entry_def)
    next
      case (Some rel')
      with False assms(2) have "rel' \<noteq> rel" by (auto simp: relative_to_Some)
      moreover from Some assms(2) have
        "os_path_join dst [rel'] = os_path_join dst [''''] @ rel'"
        "os_path_join dst [rel] = os_path_join dst [''''] @ rel"
        by (simp_all add: relative_to_Some join_relative)
      ultimately show ?thesis using Some by (simp add: copy_entry_def)
    qed
    with Cons.IH[OF rest] show ?thesis by (simp add: map_add_def)
  qed
qed

lemma copy_files_lookup:
  assumes "map_of fs p = Some d" and "relative_to src p = Some rel" and "fnmatch rel pattern"
  shows "map_of (copy_files pattern src dst fs) (os_path_join dst [rel]) = Some d"
  using copied_lookup[OF assms] by (simp add: copy_files_def map_add_def)

lemma header_relative:
  "rel \<noteq> [] \<Longrightarrow> hd rel \<noteq> CHR ''/'' \<Longrightarrow>
   relative_to ''code/logic/fossil/io'' (''code/logic/fossil/io/'' @ rel) = Some rel"
  by (simp add: relative_to_Some os_path_join_def join_step_def)

text \<open>
  Whatever the tools answer, the calls of a method are an initial segment of one list
  that does not depend on \<open>self.options.shared\<close>.
\<close>

lemma calls_prefix:
  assumes "(n, m) \<in> set class_body"
  shows "\<exists>L. \<forall>ext b w. prefix (map fst (invoked m ext (self\<lparr>options_shared := b\<rparr>) w)) L"
  using assms
proof (rule class_body_cases)
  assume "m = layout"
  then show ?thesis by (simp add: invoked_def layout_def ret_def)
next
  assume "m = package_info"
  then show ?thesis by (simp add: invoked_def package_info_def ret_def)
next
  assume m: "m = generate"
  have "prefix (map fst (invoked m ext (self\<lparr>options_shared := b\<rparr>) w))
          [MesonToolchain_new, MesonToolchain_generate]" for ext b w
    by (simp add: m invoked_def generate_def action_defs split: sum.splits)
  then show ?thesis by blast
next
  assume m: "m = build"
  have "prefix (map fst (invoked m ext (self\<lparr>options_shared := b\<rparr>) w))
          [Meson_new, Meson_configure, Meson_build]" for ext b w
    by (simp add: m invoked_def build_def action_defs split: sum.splits)
  then show ?thesis by blast
next
  assume m: "m = source_first"
  have "prefix (map fst (invoked m ext (self\<lparr>options_shared := b\<rparr>) w))
          [Run (''git clone --branch v'' @ version @ '' --depth 1 '' @ url)]" for ext b w
    by (simp add: m invoked_def source_first_def action_defs split: sum.splits)
  then show ?thesis by blast
next
  assume m: "m = source_second"
  have "prefix (map fst (invoked m ext (self\<lparr>options_shared := b\<rparr>) w))
          [Run (''git clone --branch v'' @ version @ '' '' @ url)]" for ext b w
    by (simp add: m invoked_def source_second_def action_defs split: sum.splits)
  then show ?thesis by blast
next
  assume m: "m = package"
  have "prefix (map fst (invoked m ext (self\<lparr>options_shared := b\<rparr>) w))
          [Meson_new, Meson_install, Copy ''*.h'' ''code/logic/fossil/io''
            (os_path_join (package_folder self) [''include'', ''fossil'', ''io''])]" for ext b w
    by (simp add: m invoked_def package_def action_defs split: sum.splits)
  then show ?thesis by blast
qed

text \<open>With tools that do not look at the option, neither does a run.\<close>

lemma blind_tools_same_run:
  assumes "(n, m) \<in> set class_body" and "\<forall>c b. ext (c\<lparr>options_shared := b\<rparr>) = ext c"
  shows "snd (m ext (self\<lparr>options_shared := True\<rparr>) w) =
         snd (m ext (self\<lparr>options_shared := False\<rparr>) w) \<and>
         map_sum id (options_shared_update (\<lambda>_. False))
           (fst (m ext (self\<lparr>options_shared := True\<rparr>) w)) =
         fst (m ext (self\<lparr>options_shared := False\<rparr>) w)"
  using assms(1)
  by (rule class_body_cases)
     (simp_all add: assms(2) method_defs action_defs split: sum.splits)

subsection \<open>Packaged headers\<close>

text \<open>
  C1. After a successful run of the package operation, every header file matching
  \<open>*.h\<close> under \<open>code/logic/fossil/io\<close> is present in the package's include tree under
  \<open>include/fossil/io\<close>: when \<open>package\<close> returns, the helper was constructed and the
  install step returned, and every file that was then on disk under the source path,
  with a relative path matching \<open>*.h\<close>, is on disk with the same content at
  \<open>os.path.join(self.package_folder, "include", "fossil", "io", <relative path>)\<close>.
\<close>

theorem package_installs_headers:
  assumes "package (with_copy ext) self w = (Inr self', w')"
  shows "\<exists>fs0 fs1.
     ext self Meson_new (files w) = Inr fs0 \<and> ext self Meson_install fs0 = Inr fs1 \<and>
     (\<forall>rel d.
        rel \<noteq> [] \<and> hd rel \<noteq> CHR ''/'' \<and> fnmatch rel ''*.h'' \<and>
        map_of fs1 (''code/logic/fossil/io/'' @ rel) = Some d \<longrightarrow>
        map_of (files w')
          (os_path_join (package_folder self) [''include'', ''fossil'', ''io'', rel]) = Some d)"
proof -
  let ?dst = "os_path_join (package_folder self) [''include'', ''fossil'', ''io'']"
  from assms obtain fs0 fs1 where
    new: "ext self Meson_new (files w) = Inr fs0" and
    inst: "ext self Meson_install fs0 = Inr fs1" and
    fin: "files w' = copy_files ''*.h'' ''code/logic/fossil/io'' ?dst fs1"
    by (auto simp: package_def action_defs with_copy_def split: sum.splits)
  have "map_of (files w')
          (os_path_join (package_folder self) [''include'', ''fossil'', ''io'', rel]) = Some d"
    if "rel \<noteq> []" "hd rel \<noteq> CHR ''/''" "fnmatch rel ''*.h''"
       "map_of fs1 (''code/logic/fossil/io/'' @ rel) = Some d" for rel d
  proof -
    have "map_of (files w') (os_path_join ?dst [rel]) = Some d"
      unfolding fin using that(4) header_relative[OF that(1,2)] that(3)
      by (rule copy_files_lookup)
    moreover have
      "os_path_join (package_folder self) [''include'', ''fossil'', ''io'', rel] =
       os_path_join ?dst [rel]"
      using join_snoc[of "package_folder self" "[''include'', ''fossil'', ''io'']" rel] by simp
    ultimately show ?thesis by simp
  qed
  with new inst show ?thesis by blast
qed

text \<open>
  The theorem at a package folder \<open>/pkg\<close> and a disk holding \<open>stream.h\<close> and
  \<open>stream.c\<close>: the run succeeds and the header is at
  \<open>/pkg/include/fossil/io/stream.h\<close>.
\<close>

theorem package_installs_headers_witness:
  "fst (package (with_copy all_succeed) recipe0 world0) = Inr recipe0 \<and>
   map_of (files (snd (package (with_copy all_succeed) recipe0 world0)))
     ''/pkg/include/fossil/io/stream.h'' = Some ''#pragma once''"
proof -
  have ok: "fst (package (with_copy all_succeed) recipe0 world0) = Inr recipe0"
    by (simp add: package_def action_defs with_copy_def all_succeed_def)
  then have run: "package (with_copy all_succeed) recipe0 world0 =
      (Inr recipe0, snd (package (with_copy all_succeed) recipe0 world0))"
    by (simp add: prod_eq_iff)
  have path: "os_path_join (package_folder recipe0) [''include'', ''fossil'', ''io'', ''stream.h'']
      = ''/pkg/include/fossil/io/stream.h''"
    by (simp add: recipe0_def os_path_join_def join_step_def)
  from package_installs_headers[OF run] obtain fs0 fs1 where
    "all_succeed recipe0 Meson_new (files world0) = Inr fs0"
    "all_succeed recipe0 Meson_install fs0 = Inr fs1" and
    hdr: "\<And>rel d. rel \<noteq> [] \<and> hd rel \<noteq> CHR ''/'' \<and> fnmatch rel ''*.h'' \<and>
        map_of fs1 (''code/logic/fossil/io/'' @ rel) = Some d \<longrightarrow>
        map_of (files (snd (package (with_copy all_succeed) recipe0 world0)))
          (os_path_join (package_folder recipe0) [''include'', ''fossil'', ''io'', rel]) = Some d"
    by blast
  then have "fs1 = files world0"
    by (simp add: all_succeed_def)
  with hdr[of "''stream.h''" "''#pragma once''"] have
    "map_of (files (snd (package (with_copy all_succeed) recipe0 world0)))
       (os_path_join (package_folder recipe0) [''include'', ''fossil'', ''io'', ''stream.h''])
     = Some ''#pragma once''"
    by (simp add: world0_def)
  then have "map_of (files (snd (package (with_copy all_succeed) recipe0 world0)))
       ''/pkg/include/fossil/io/stream.h'' = Some ''#pragma once''"
    unfolding path .
  with ok show ?thesis by (rule conjI)
qed

subsection \<open>Package metadata\<close>

text \<open>
  C2. The package_info operation always emits metadata declaring exactly one library
  name, \<open>fossil_io\<close>, and exactly one include directory, \<open>include\<close>: it returns for
  every recipe object and every behaviour of the tools, both lists have length one with
  those elements, and the log and the disk are as before.
\<close>

theorem package_info_metadata:
  "\<exists>self'. package_info ext self w = (Inr self', w) \<and>
     cpp_info_libs self' = [''fossil_io''] \<and> length (cpp_info_libs self') = 1 \<and>
     cpp_info_includedirs self' = [''include''] \<and> length (cpp_info_includedirs self') = 1"
  by (simp add: package_info_def ret_def)

subsection \<open>The clone\<close>

text \<open>
  C3. The source operation clones a tagged revision of the remote repository: the
  method bound to \<open>source\<close> makes exactly one call, a command whose words are \<open>git\<close>,
  \<open>clone\<close>, \<open>--branch\<close>, the letter \<open>v\<close> followed by the declared version (that is
  \<open>v0.2.4\<close>), and the declared project URL.
\<close>

theorem source_clones_tag:
  "(\<exists>st. invoked (invoke ''source'') ext self w =
       [(Run (''git clone --branch v'' @ version @ '' '' @ url), st)]) \<and>
   shell_words (''git clone --branch v'' @ version @ '' '' @ url) =
       [''git'', ''clone'', ''--branch'', ''v'' @ version, url] \<and>
   ''v'' @ version = ''v0.2.4''"
  by (simp add: invoke_source invoked_def source_second_def action_defs
      shell_words_def version_def url_def split: sum.splits)

text \<open>
  C4. The class body defines \<open>source\<close> twice and the later definition is the one bound:
  the effective operation runs \<open>git clone --branch v0.2.4 <url>\<close>, a command in which
  \<open>--depth\<close> is not a word, and the command of the earlier definition, which has
  \<open>--depth 1\<close>, is never among its calls.
\<close>

theorem effective_source_has_no_depth:
  "class_namespace ''source'' = Some source_second \<and>
   (\<exists>st. invoked (invoke ''source'') ext self w =
       [(Run ''git clone --branch v0.2.4 https://github.com/fossillogic/fossil-io'', st)]) \<and>
   ''--depth'' \<notin>
     set (shell_words ''git clone --branch v0.2.4 https://github.com/fossillogic/fossil-io'') \<and>
   (\<exists>st. invoked source_first ext self w =
       [(Run ''git clone --branch v0.2.4 --depth 1 https://github.com/fossillogic/fossil-io'',
         st)]) \<and>
   Run ''git clone --branch v0.2.4 --depth 1 https://github.com/fossillogic/fossil-io''
     \<notin> fst ` set (invoked (invoke ''source'') ext self w)"
proof -
  have "\<exists>st. invoked (invoke ''source'') ext self w =
       [(Run ''git clone --branch v0.2.4 https://github.com/fossillogic/fossil-io'', st)]"
    by (simp add: invoke_source invoked_def source_second_def action_defs
      version_def url_def split: sum.splits)
  moreover have "''--depth'' \<notin>
     set (shell_words ''git clone --branch v0.2.4 https://github.com/fossillogic/fossil-io'')"
    by (simp add: shell_words_def)
  moreover have "\<exists>st. invoked source_first ext self w =
       [(Run ''git clone --branch v0.2.4 --depth 1 https://github.com/fossillogic/fossil-io'',
         st)]"
    by (simp add: invoked_def source_first_def action_defs
      version_def url_def split: sum.splits)
  moreover have
    "Run ''git clone --branch v0.2.4 --depth 1 https://github.com/fossillogic/fossil-io''
     \<notin> fst ` set (invoked (invoke ''source'') ext self w)"
    by (simp add: invoke_source invoked_def source_second_def action_defs
      version_def url_def split: sum.splits)
  ultimately show ?thesis using source_binding by blast
qed

subsection \<open>Shape of the methods\<close>

text \<open>
  C5, as stated, at a run in which every tool succeeds: build hands work to a tool
  twice (configure and build) and so does package (install and the header copy), not
  once.
\<close>

theorem one_delegation_counterexample:
  "length (delegations (invoked build all_succeed recipe0 world0)) = 2 \<and>
   length (delegations (invoked build all_succeed recipe0 world0)) \<noteq> 1 \<and>
   length (delegations (invoked package all_succeed recipe0 world0)) = 2 \<and>
   length (delegations (invoked layout all_succeed recipe0 world0)) = 0"
  by (simp add: delegations_def invoked_def method_defs action_defs all_succeed_def world0_def)

text \<open>
  C5, amended. Every method of the recipe (layout, generate, build, source, package,
  package_info) is a fixed straight-line sequence of at most two delegations to an
  external tool or file-copy operations, with no branching logic, retries, or
  concurrency. Its calls are an initial segment, without repetition, of one fixed
  list; they are made one after another, each on the disk its predecessor left; the
  list is cut short only by a call that raises, and then the method raises that very
  exception; the method returns exactly when the whole list ran and every call
  returned. The lists: none for layout and package_info (each assigns two attributes);
  toolchain construction and generate; the clone command; helper construction,
  configure and build; helper construction, install and the header copy. So when the
  method returns, the work handed to tools is exactly generate; the clone; configure
  then build; install then the copy.
\<close>

theorem methods_are_straight_line:
  "straight_line [] ext self (files w) (fst (layout ext self w)) (invoked layout ext self w) \<and>
   straight_line [MesonToolchain_new, MesonToolchain_generate] ext self (files w)
     (fst (generate ext self w)) (invoked generate ext self w) \<and>
   straight_line [Meson_new, Meson_configure, Meson_build] ext self (files w)
     (fst (build ext self w)) (invoked build ext self w) \<and>
   straight_line [Run (''git clone --branch v'' @ version @ '' '' @ url)] ext self (files w)
     (fst (invoke ''source'' ext self w)) (invoked (invoke ''source'') ext self w) \<and>
   straight_line
     [Meson_new, Meson_install,
      Copy ''*.h'' ''code/logic/fossil/io''
        (os_path_join (package_folder self) [''include'', ''fossil'', ''io''])]
     ext self (files w) (fst (package ext self w)) (invoked package ext self w) \<and>
   straight_line [] ext self (files w)
     (fst (package_info ext self w)) (invoked package_info ext self w) \<and>
   invoked layout ext self w = [] \<and>
   invoked package_info ext self w = [] \<and>
   (\<forall>self'. fst (generate ext self w) = Inr self' \<longrightarrow>
      delegations (invoked generate ext self w) = [MesonToolchain_generate]) \<and>
   (\<forall>self'. fst (invoke ''source'' ext self w) = Inr self' \<longrightarrow>
      delegations (invoked (invoke ''source'') ext self w) =
        [Run (''git clone --branch v'' @ version @ '' '' @ url)]) \<and>
   (\<forall>self'. fst (build ext self w) = Inr self' \<longrightarrow>
      delegations (invoked build ext self w) = [Meson_configure, Meson_build]) \<and>
   (\<forall>self'. fst (package ext self w) = Inr self' \<longrightarrow>
      delegations (invoked package ext self w) =
        [Meson_install,
         Copy ''*.h'' ''code/logic/fossil/io''
           (os_path_join (package_folder self) [''include'', ''fossil'', ''io''])])"
proof -
  have "straight_line [] ext self (files w) (fst (layout ext self w)) (invoked layout ext self w)"
    "straight_line [] ext self (files w)
       (fst (package_info ext self w)) (invoked package_info ext self w)"
    "invoked layout ext self w = []" "invoked package_info ext self w = []"
    by (simp_all add: straight_line_def invoked_def layout_def package_info_def ret_def)
  moreover have "straight_line [MesonToolchain_new, MesonToolchain_generate] ext self (files w)
     (fst (generate ext self w)) (invoked generate ext self w)"
    "\<forall>self'. fst (generate ext self w) = Inr self' \<longrightarrow>
      delegations (invoked generate ext self w) = [MesonToolchain_generate]"
    by (simp_all add: straight_line_def delegations_def invoked_def generate_def action_defs
        split: sum.splits)
  moreover have
    "straight_line [Run (''git clone --branch v'' @ version @ '' '' @ url)] ext self (files w)
     (fst (invoke ''source'' ext self w)) (invoked (invoke ''source'') ext self w)"
    "\<forall>self'. fst (invoke ''source'' ext self w) = Inr self' \<longrightarrow>
      delegations (invoked (invoke ''source'') ext self w) =
        [Run (''git clone --branch v'' @ version @ '' '' @ url)]"
    by (simp_all add: invoke_source straight_line_def delegations_def invoked_def
        source_second_def action_defs split: sum.splits)
  moreover have "straight_line [Meson_new, Meson_configure, Meson_build] ext self (files w)
     (fst (build ext self w)) (invoked build ext self w)"
    "\<forall>self'. fst (build ext self w) = Inr self' \<longrightarrow>
      delegations (invoked build ext self w) = [Meson_configure, Meson_build]"
    by (simp_all add: straight_line_def delegations_def invoked_def build_def action_defs
        split: sum.splits)
  moreover have "straight_line
     [Meson_new, Meson_install,
      Copy ''*.h'' ''code/logic/fossil/io''
        (os_path_join (package_folder self) [''include'', ''fossil'', ''io''])]
     ext self (files w) (fst (package ext self w)) (invoked package ext self w)"
    "\<forall>self'. fst (package ext self w) = Inr self' \<longrightarrow>
      delegations (invoked package ext self w) =
        [Meson_install,
         Copy ''*.h'' ''code/logic/fossil/io''
           (os_path_join (package_folder self) [''include'', ''fossil'', ''io''])]"
    by (simp_all add: straight_line_def delegations_def invoked_def package_def action_defs
        split: sum.splits)
  ultimately show ?thesis by blast
qed

text \<open>
  The amended statement at sample runs. With tools that always succeed, package,
  build and generate return and their work is install then the copy into
  \<open>/pkg/include/fossil/io\<close>; configure then build; generate. With a configure step
  that exits with status 1, build stops after it and raises that exception.
\<close>

theorem methods_are_straight_line_witness:
  "delegations (invoked package all_succeed recipe0 world0) =
     [Meson_install, Copy ''*.h'' ''code/logic/fossil/io'' ''/pkg/include/fossil/io''] \<and>
   delegations (invoked build all_succeed recipe0 world0) = [Meson_configure, Meson_build] \<and>
   delegations (invoked generate all_succeed recipe0 world0) = [MesonToolchain_generate] \<and>
   invoked build configure_fails recipe0 world0 =
     [(Meson_new, None),
      (Meson_configure, Some (ConanException ''meson setup: exit status 1''))] \<and>
   fst (build configure_fails recipe0 world0) =
     Inl (ConanException ''meson setup: exit status 1'')"
proof -
  note scripts = methods_are_straight_line
  have dst: "os_path_join (package_folder recipe0) [''include'', ''fossil'', ''io'']
      = ''/pkg/include/fossil/io''"
    by (simp add: recipe0_def os_path_join_def join_step_def)
  have p: "fst (package all_succeed recipe0 world0) = Inr recipe0"
    by (simp add: package_def action_defs all_succeed_def)
  have b: "fst (build all_succeed recipe0 world0) = Inr recipe0"
    by (simp add: build_def action_defs all_succeed_def)
  have g: "fst (generate all_succeed recipe0 world0) = Inr recipe0"
    by (simp add: generate_def action_defs all_succeed_def)
  have l: "invoked build configure_fails recipe0 world0 =
     [(Meson_new, None),
      (Meson_configure, Some (ConanException ''meson setup: exit status 1''))]"
    by (simp add: invoked_def build_def action_defs configure_fails_def world0_def)
  from scripts[of all_succeed recipe0 world0] p
  have "delegations (invoked package all_succeed recipe0 world0) =
     [Meson_install,
      Copy ''*.h'' ''code/logic/fossil/io''
        (os_path_join (package_folder recipe0) [''include'', ''fossil'', ''io''])]"
    by blast
  then have "delegations (invoked package all_succeed recipe0 world0) =
     [Meson_install, Copy ''*.h'' ''code/logic/fossil/io'' ''/pkg/include/fossil/io'']"
    by (simp add: dst)
  moreover from scripts[of all_succeed recipe0 world0] b
  have "delegations (invoked build all_succeed recipe0 world0) =
     [Meson_configure, Meson_build]"
    by blast
  moreover from scripts[of all_succeed recipe0 world0] g
  have "delegations (invoked generate all_succeed recipe0 world0) =
     [MesonToolchain_generate]"
    by blast
  moreover from scripts[of configure_fails recipe0 world0]
  have "straight_line [Meson_new, Meson_configure, Meson_build] configure_fails recipe0
     (files world0) (fst (build configure_fails recipe0 world0))
     (invoked build configure_fails recipe0 world0)"
    by blast
  then have "fst (build configure_fails recipe0 world0) =
     Inl (ConanException ''meson setup: exit status 1'')"
    by (simp add: straight_line_def l split: sum.splits)
  ultimately show ?thesis using l by blast
qed

subsection \<open>Options\<close>

text \<open>
  C6. The recipe's build configuration surface is exactly one boolean option named
  \<open>shared\<close>, whose admissible values are True and False and whose default is False:
  \<open>options\<close> and \<open>default_options\<close> each have the single key \<open>shared\<close>, the admissible
  values are the list of True and False, which are all the booleans, and the default
  is False.
\<close>

theorem options_surface:
  "map fst options = [''shared''] \<and> map_of options ''shared'' = Some [True, False] \<and>
   set [True, False] = (UNIV :: bool set) \<and>
   map fst default_options = [''shared''] \<and> map_of default_options ''shared'' = Some False"
  by (auto simp: options_def default_options_def)

text \<open>
  C7. No method body reads the \<open>shared\<close> option. For every method of the class body
  and two runs that differ only in \<open>self.options.shared\<close>: whatever the tools do in
  either run, the calls constructed agree as far as both runs get; and when the tools
  themselves do not look at the option, the two runs leave the same log and the same
  disk and return the same result, up to the option's own value.
\<close>

theorem shared_is_never_read:
  assumes "(n, m) \<in> set class_body"
  shows "(prefix (map fst (invoked m ext1 (self\<lparr>options_shared := True\<rparr>) w1))
                 (map fst (invoked m ext2 (self\<lparr>options_shared := False\<rparr>) w2)) \<or>
          prefix (map fst (invoked m ext2 (self\<lparr>options_shared := False\<rparr>) w2))
                 (map fst (invoked m ext1 (self\<lparr>options_shared := True\<rparr>) w1))) \<and>
         ((\<forall>c b. ext (c\<lparr>options_shared := b\<rparr>) = ext c) \<longrightarrow>
            snd (m ext (self\<lparr>options_shared := True\<rparr>) w) =
            snd (m ext (self\<lparr>options_shared := False\<rparr>) w) \<and>
            map_sum id (options_shared_update (\<lambda>_. False))
              (fst (m ext (self\<lparr>options_shared := True\<rparr>) w)) =
            fst (m ext (self\<lparr>options_shared := False\<rparr>) w))"
proof -
  from calls_prefix[OF assms, of self] obtain L where
    L: "\<And>ext b w. prefix (map fst (invoked m ext (self\<lparr>options_shared := b\<rparr>) w)) L"
    by blast
  from L[of ext1 True w1] L[of ext2 False w2]
  have "prefix (map fst (invoked m ext1 (self\<lparr>options_shared := True\<rparr>) w1))
               (map fst (invoked m ext2 (self\<lparr>options_shared := False\<rparr>) w2)) \<or>
        prefix (map fst (invoked m ext2 (self\<lparr>options_shared := False\<rparr>) w2))
               (map fst (invoked m ext1 (self\<lparr>options_shared := True\<rparr>) w1))"
    by (rule prefix_same_cases)
  with blind_tools_same_run[OF assms, of ext self w] show ?thesis by blast
qed

text \<open>
  The theorem at package with tools that always succeed: they ignore the option, and
  the runs with \<open>shared\<close> True and False leave the same log and the same disk.
\<close>

theorem shared_is_never_read_witness:
  "(''package'', package) \<in> set class_body \<and>
   (\<forall>c b. all_succeed (c\<lparr>options_shared := b\<rparr>) = all_succeed c) \<and>
   snd (package all_succeed (recipe0\<lparr>options_shared := True\<rparr>) world0) =
   snd (package all_succeed (recipe0\<lparr>options_shared := False\<rparr>) world0)"
proof -
  have p: "(''package'', package) \<in> set class_body"
    by (simp add: class_body_def)
  have b: "\<forall>c b. all_succeed (c\<lparr>options_shared := b\<rparr>) = all_succeed c"
    by (simp add: all_succeed_def fun_eq_iff)
  from shared_is_never_read[OF p, of _ recipe0 _ _ _ all_succeed world0] b
  have "snd (package all_succeed (recipe0\<lparr>options_shared := True\<rparr>) world0) =
        snd (package all_succeed (recipe0\<lparr>options_shared := False\<rparr>) world0)"
    by blast
  with p b show ?thesis by blast
qed

subsection \<open>Layout\<close>

text \<open>
  C8. The layout operation always sets the source folder to \<open>.\<close> and the build folder to
  \<open>builddir\<close>, and sets nothing else: it returns normally, every other attribute of the
  recipe object keeps its value, and the world (log and files) is untouched.
\<close>

theorem layout_sets_folders:
  "layout ext self w =
     (Inr \<lparr>folders_source = ''.'', folders_build = ''builddir'',
           package_folder = package_folder self, options_shared = options_shared self,
           cpp_info_libs = cpp_info_libs self,
           cpp_info_includedirs = cpp_info_includedirs self\<rparr>, w)"
  by (simp add: layout_def ret_def)

subsection \<open>Failures and order\<close>

text \<open>
  C9. For every method of the recipe, an error raised by an invoked tool propagates
  unchanged to the caller and ends the method: the log of the method is what the tools
  really answered and stops at the first call that raised; every call before the last
  returned; and the method raises \<open>x\<close> exactly when its last call raised \<open>x\<close>. So no
  method catches, retries, validates or recovers.
\<close>

theorem tool_errors_propagate:
  assumes "(n, m) \<in> set class_body"
  shows "replays ext self (files w) (invoked m ext self w) \<and>
         (\<forall>en \<in> set (butlast (invoked m ext self w)). snd en = None) \<and>
         (fst (m ext self w) = Inl x \<longleftrightarrow>
            invoked m ext self w \<noteq> [] \<and> snd (last (invoked m ext self w)) = Some x)"
  using assms
  by (rule class_body_cases)
     (auto simp: invoked_def method_defs action_defs split: sum.splits)

text \<open>
  The theorem at build with a configure step that exits with status 1: the log ends
  with the failed configure, the build step is never called, and build raises that
  very exception.
\<close>

theorem tool_errors_propagate_witness:
  "(''build'', build) \<in> set class_body \<and>
   invoked build configure_fails recipe0 world0 =
     [(Meson_new, None),
      (Meson_configure, Some (ConanException ''meson setup: exit status 1''))] \<and>
   fst (build configure_fails recipe0 world0) =
     Inl (ConanException ''meson setup: exit status 1'')"
proof -
  have b: "(''build'', build) \<in> set class_body"
    by (simp add: class_body_def)
  have l: "invoked build configure_fails recipe0 world0 =
     [(Meson_new, None),
      (Meson_configure, Some (ConanException ''meson setup: exit status 1''))]"
    by (simp add: invoked_def build_def action_defs configure_fails_def world0_def)
  from tool_errors_propagate[OF b, of configure_fails recipe0 world0
        "ConanException ''meson setup: exit status 1''"] l
  have "fst (build configure_fails recipe0 world0) =
        Inl (ConanException ''meson setup: exit status 1'')"
    by simp
  with b l show ?thesis by simp
qed

text \<open>
  C10. The external-tool invocations occur in a fixed linear order. Within build the
  configure step comes before the build step, within package the install step comes
  before the header copy, and nothing interleaves or reorders. The calls of build are
  the helper construction, then configure, then build; those of package the helper
  construction, then install, then the copy; source makes the one clone call;
  package_info calls nothing and returns. Each call starts on the disk its
  predecessor left. A method stops short of its last step only when the call it
  stopped at raised, and it then raises that exception; when it returns, every step
  ran, in that order, and returned.
\<close>

theorem calls_in_fixed_order:
  "map fst (invoked build ext self w) \<in>
     {[Meson_new], [Meson_new, Meson_configure], [Meson_new, Meson_configure, Meson_build]} \<and>
   map fst (invoked package ext self w) \<in>
     {[Meson_new], [Meson_new, Meson_install],
      [Meson_new, Meson_install,
       Copy ''*.h'' ''code/logic/fossil/io''
         (os_path_join (package_folder self) [''include'', ''fossil'', ''io''])]} \<and>
   map fst (invoked (invoke ''source'') ext self w) =
     [Run (''git clone --branch v'' @ version @ '' '' @ url)] \<and>
   invoked package_info ext self w = [] \<and>
   replays ext self (files w) (invoked build ext self w) \<and>
   replays ext self (files w) (invoked package ext self w) \<and>
   replays ext self (files w) (invoked (invoke ''source'') ext self w) \<and>
   (length (invoked build ext self w) < 3 \<longrightarrow>
      (\<exists>x. snd (last (invoked build ext self w)) = Some x \<and> fst (build ext self w) = Inl x)) \<and>
   (length (invoked package ext self w) < 3 \<longrightarrow>
      (\<exists>x. snd (last (invoked package ext self w)) = Some x \<and>
           fst (package ext self w) = Inl x)) \<and>
   (\<forall>self'. fst (build ext self w) = Inr self' \<longrightarrow>
      invoked build ext self w =
        [(Meson_new, None), (Meson_configure, None), (Meson_build, None)]) \<and>
   (\<forall>self'. fst (package ext self w) = Inr self' \<longrightarrow>
      invoked package ext self w =
        [(Meson_new, None), (Meson_install, None),
         (Copy ''*.h'' ''code/logic/fossil/io''
            (os_path_join (package_folder self) [''include'', ''fossil'', ''io'']), None)]) \<and>
   (\<forall>self'. fst (invoke ''source'' ext self w) = Inr self' \<longrightarrow>
      invoked (invoke ''source'') ext self w =
        [(Run (''git clone --branch v'' @ version @ '' '' @ url), None)]) \<and>
   (\<exists>self'. fst (package_info ext self w) = Inr self')"
proof -
  have "map fst (invoked build ext self w) \<in>
     {[Meson_new], [Meson_new, Meson_configure], [Meson_new, Meson_configure, Meson_build]}"
    "replays ext self (files w) (invoked build ext self w)"
    "length (invoked build ext self w) < 3 \<longrightarrow>
      (\<exists>x. snd (last (invoked build ext self w)) = Some x \<and> fst (build ext self w) = Inl x)"
    "\<forall>self'. fst (build ext self w) = Inr self' \<longrightarrow>
      invoked build ext self w =
        [(Meson_new, None), (Meson_configure, None), (Meson_build, None)]"
    by (simp_all add: invoked_def build_def action_defs split: sum.splits)
  moreover have "map fst (invoked package ext self w) \<in>
     {[Meson_new], [Meson_new, Meson_install],
      [Meson_new, Meson_install,
       Copy ''*.h'' ''code/logic/fossil/io''
         (os_path_join (package_folder self) [''include'', ''fossil'', ''io''])]}"
    "replays ext self (files w) (invoked package ext self w)"
    "length (invoked package ext self w) < 3 \<longrightarrow>
      (\<exists>x. snd (last (invoked package ext self w)) = Some x \<and>
           fst (package ext self w) = Inl x)"
    "\<forall>self'. fst (package ext self w) = Inr self' \<longrightarrow>
      invoked package ext self w =
        [(Meson_new, None), (Meson_install, None),
         (Copy ''*.h'' ''code/logic/fossil/io''
            (os_path_join (package_folder self) [''include'', ''fossil'', ''io'']), None)]"
    by (simp_all add: invoked_def package_def action_defs split: sum.splits)
  moreover have "map fst (invoked (invoke ''source'') ext self w) =
     [Run (''git clone --branch v'' @ version @ '' '' @ url)]"
    "replays ext self (files w) (invoked (invoke ''source'') ext self w)"
    "\<forall>self'. fst (invoke ''source'' ext self w) = Inr self' \<longrightarrow>
      invoked (invoke ''source'') ext self w =
        [(Run (''git clone --branch v'' @ version @ '' '' @ url), None)]"
    by (simp_all add: invoke_source invoked_def source_second_def action_defs split: sum.splits)
  moreover have "invoked package_info ext self w = []"
    "\<exists>self'. fst (package_info ext self w) = Inr self'"
    by (simp_all add: invoked_def package_info_def ret_def)
  ultimately show ?thesis by blast
qed

text \<open>
  The theorem at sample runs. With tools that always succeed, build and package return
  after their full sequences, in order. With an install step that exits with status 1,
  package stops after it, never reaches the copy, and raises that exception.
\<close>

theorem calls_in_fixed_order_witness:
  "invoked build all_succeed recipe0 world0 =
     [(Meson_new, None), (Meson_configure, None), (Meson_build, None)] \<and>
   invoked package all_succeed recipe0 world0 =
     [(Meson_new, None), (Meson_install, None),
      (Copy ''*.h'' ''code/logic/fossil/io'' ''/pkg/include/fossil/io'', None)] \<and>
   length (invoked package install_fails recipe0 world0) < 3 \<and>
   fst (package install_fails recipe0 world0) =
     Inl (ConanException ''meson install: exit status 1'')"
proof -
  note order = calls_in_fixed_order
  have b: "fst (build all_succeed recipe0 world0) = Inr recipe0"
    by (simp add: build_def action_defs all_succeed_def)
  have p: "fst (package all_succeed recipe0 world0) = Inr recipe0"
    by (simp add: package_def action_defs all_succeed_def)
  have dst: "os_path_join (package_folder recipe0) [''include'', ''fossil'', ''io'']
      = ''/pkg/include/fossil/io''"
    by (simp add: recipe0_def os_path_join_def join_step_def)
  have l: "invoked package install_fails recipe0 world0 =
      [(Meson_new, None),
       (Meson_install, Some (ConanException ''meson install: exit status 1''))]"
    by (simp add: invoked_def package_def action_defs install_fails_def world0_def)
  from order[of all_succeed recipe0 world0] b
  have "invoked build all_succeed recipe0 world0 =
     [(Meson_new, None), (Meson_configure, None), (Meson_build, None)]"
    by blast
  moreover from order[of all_succeed recipe0 world0] p
  have "invoked package all_succeed recipe0 world0 =
     [(Meson_new, None), (Meson_install, None),
      (Copy ''*.h'' ''code/logic/fossil/io''
        (os_path_join (package_folder recipe0) [''include'', ''fossil'', ''io'']), None)]"
    by blast
  moreover from l have s: "length (invoked package install_fails recipe0 world0) < 3"
    by simp
  moreover from order[of install_fails recipe0 world0] s
  have "\<exists>x. snd (last (invoked package install_fails recipe0 world0)) = Some x \<and>
           fst (package install_fails recipe0 world0) = Inl x"
    by blast
  then have "fst (package install_fails recipe0 world0) =
     Inl (ConanException ''meson install: exit status 1'')"
    by (simp add: l)
  ultimately show ?thesis by (simp add: dst)
qed

end
